theory Spec2Isabelle
  imports Main
begin

section \<open>The predefined-object cache of \<^verbatim>\<open>pandevice/predefined.py\<close>\<close>

text \<open>
  The class \<^verbatim>\<open>Predefined\<close> keeps three dictionaries of objects parsed from the XML
  that the device returns, and fills them on demand. The embedding below follows the
  class method by method. What the Python does besides returning a value is explicit:
  \<^item> the three dictionaries are maps carried in a record that every method takes and
    returns;
  \<^item> an exception is the left summand of the result, and the record is returned with
    it, since a Python exception leaves the mutations made before it in place;
  \<^item> the device is a function from the requests it has received so far and the
    requested path to its answer, so its answers may change from call to call.
\<close>

subsection \<open>XML elements\<close>

text \<open>An \<^verbatim>\<open>ElementTree\<close> element: tag, attributes, child elements in document order.\<close>

datatype xml = Element (tag: string) (attrib: "(string \<times> string) list") (children: "xml list")

text \<open>\<^verbatim>\<open>elm.find(t)\<close> for a plain tag \<open>t\<close>: the first direct child with that tag, or \<^verbatim>\<open>None\<close>.\<close>

definition xml_find :: "xml \<Rightarrow> string \<Rightarrow> xml option" where
  "xml_find elm t = List.find (\<lambda>c. tag c = t) (children elm)"

subsection \<open>Exceptions, the transport client and the object classes\<close>

text \<open>
  \<open>PanXapiError\<close> stands for whatever \<^verbatim>\<open>self.parent.xapi.get\<close> raises, with its
  message. \<open>TypeError\<close> is what \<^verbatim>\<open>for elm in xml\<close> raises when \<^verbatim>\<open>xml\<close> is
  \<^verbatim>\<open>None\<close>.
\<close>

datatype error = PanXapiError string | TypeError

text \<open>
  The transport client \<^verbatim>\<open>self.parent.xapi.get(xpath, retry_on_peer=False)\<close> is not
  part of the module. It is a parameter: \<open>xapi history xpath\<close> is the answer to a
  request for \<open>xpath\<close> made after the requests \<open>history\<close> (oldest first), either the
  root element of the response or an exception.
\<close>

type_synonym xapi = "string list \<Rightarrow> string \<Rightarrow> error + xml"

text \<open>
  Modelled from the spec: the classes \<^verbatim>\<open>ApplicationContainer\<close>,
  \<^verbatim>\<open>ApplicationObject\<close> and \<^verbatim>\<open>ServiceObject\<close> of the module \<^verbatim>\<open>objects\<close> are
  not among the sources. The spec describes them as a factory per kind that parses
  one XML element into an object exposing a \<^verbatim>\<open>name\<close>, and the cache reads nothing
  else of an object. Each field below is the construction \<^verbatim>\<open>obj = objects.K()\<close>
  followed by \<^verbatim>\<open>obj.refresh(xml=elm)\<close>; \<open>obj_name\<close> reads \<^verbatim>\<open>obj.name\<close>. An
  object is never \<^verbatim>\<open>None\<close> and counts as true in a condition.
\<close>

record 'o objects =
  ApplicationContainer :: "xml \<Rightarrow> 'o"
  ApplicationObject :: "xml \<Rightarrow> 'o"
  ServiceObject :: "xml \<Rightarrow> 'o"
  obj_name :: "'o \<Rightarrow> string"

subsection \<open>The paths\<close>

definition PREDEFINED_ROOT_XPATH :: string where
  "PREDEFINED_ROOT_XPATH = ''/config/predefined''"

definition ENTRY :: string where
  "ENTRY = ''/entry[@name='%s']''"

definition SERVICE :: string where
  "SERVICE = ''/service''"

definition APPLICATION_CONTAINS_XPATH :: string where
  \<open>APPLICATION_CONTAINS_XPATH = ''//*[contains(local-name(), "application")]''\<close>

definition ALL_APPLICATION_XPATH :: string where
  "ALL_APPLICATION_XPATH = PREDEFINED_ROOT_XPATH @ APPLICATION_CONTAINS_XPATH"

definition SINGLE_APPLICATION_XPATH :: string where
  "SINGLE_APPLICATION_XPATH = ALL_APPLICATION_XPATH @ ENTRY"

definition ALL_SERVICE_XPATH :: string where
  "ALL_SERVICE_XPATH = PREDEFINED_ROOT_XPATH @ SERVICE"

definition SINGLE_SERVICE_XPATH :: string where
  "SINGLE_SERVICE_XPATH = ALL_SERVICE_XPATH @ ENTRY"

text \<open>
  \<^verbatim>\<open>fmt % arg\<close> for a format with one \<^verbatim>\<open>%s\<close> and a string argument: the first
  \<^verbatim>\<open>%s\<close> is replaced by the argument, which is copied as it is. The two formats of
  the class have exactly one \<^verbatim>\<open>%s\<close> and no other \<^verbatim>\<open>%\<close>.
\<close>

fun percent :: "string \<Rightarrow> string \<Rightarrow> string" where
  "percent [] arg = []"
| "percent [c] arg = [c]"
| "percent (c # d # cs) arg =
     (if c = CHR ''%'' \<and> d = CHR ''s'' then arg @ cs else c # percent (d # cs) arg)"

subsection \<open>The cache\<close>

text \<open>
  The fields of a \<^verbatim>\<open>Predefined\<close> instance. \<open>parent\<close> is the device handle, seen
  through the only thing the class does with it: the paths requested from it so far,
  oldest first. A call of \<^verbatim>\<open>xapi.get\<close> appends its path.
\<close>

record 'o predefined =
  parent :: "string list"
  service_objects :: "string \<rightharpoonup> 'o"
  application_objects :: "string \<rightharpoonup> 'o"
  application_container_objects :: "string \<rightharpoonup> 'o"

text \<open>\<^verbatim>\<open>__init__\<close>: the three dictionaries start empty.\<close>

definition init :: "string list \<Rightarrow> 'o predefined" where
  "init device =
     \<lparr>parent = device, service_objects = Map.empty, application_objects = Map.empty,
      application_container_objects = Map.empty\<rparr>"

text \<open>
  \<^verbatim>\<open>_get_xml\<close> (the leading underscore is dropped in the names here). The message
  \<^verbatim>\<open>err_msg\<close> is built and never used, so it is not modelled. The request is
  recorded whether or not it raises.
\<close>

definition get_xml :: "xapi \<Rightarrow> 'o predefined \<Rightarrow> string \<Rightarrow> (error + xml option) \<times> 'o predefined" where
  "get_xml xapi self xpath =
     (let self' = self\<lparr>parent := parent self @ [xpath]\<rparr> in
      case xapi (parent self) xpath of
        Inl e \<Rightarrow> (Inl e, self')
      | Inr root \<Rightarrow> (Inr (xml_find root ''result''), self'))"

text \<open>The loop of \<^verbatim>\<open>_parse_application_xml\<close> over the children of the result.\<close>

fun parse_application_elms :: "'o objects \<Rightarrow> 'o predefined \<Rightarrow> xml list \<Rightarrow> 'o predefined" where
  "parse_application_elms om self [] = self"
| "parse_application_elms om self (elm # elms) =
     (if xml_find elm ''functions'' \<noteq> None then
        (let obj = ApplicationContainer om elm in
         parse_application_elms om
           (self\<lparr>application_container_objects :=
              (application_container_objects self)(obj_name om obj \<mapsto> obj)\<rparr>) elms)
      else
        (let obj = ApplicationObject om elm in
         parse_application_elms om
           (self\<lparr>application_objects :=
              (application_objects self)(obj_name om obj \<mapsto> obj)\<rparr>) elms))"

text \<open>\<^verbatim>\<open>_parse_application_xml\<close>: iterating over \<^verbatim>\<open>None\<close> raises.\<close>

definition parse_application_xml ::
  "'o objects \<Rightarrow> 'o predefined \<Rightarrow> xml option \<Rightarrow> (error + unit) \<times> 'o predefined" where
  "parse_application_xml om self xml =
     (case xml of
        None \<Rightarrow> (Inl TypeError, self)
      | Some result \<Rightarrow> (Inr (), parse_application_elms om self (children result)))"

text \<open>The loop of \<^verbatim>\<open>_parse_service_xml\<close>.\<close>

fun parse_service_elms :: "'o objects \<Rightarrow> 'o predefined \<Rightarrow> xml list \<Rightarrow> 'o predefined" where
  "parse_service_elms om self [] = self"
| "parse_service_elms om self (elm # elms) =
     (let obj = ServiceObject om elm in
      parse_service_elms om
        (self\<lparr>service_objects := (service_objects self)(obj_name om obj \<mapsto> obj)\<rparr>) elms)"

definition parse_service_xml ::
  "'o objects \<Rightarrow> 'o predefined \<Rightarrow> xml option \<Rightarrow> (error + unit) \<times> 'o predefined" where
  "parse_service_xml om self xml =
     (case xml of
        None \<Rightarrow> (Inl TypeError, self)
      | Some result \<Rightarrow> (Inr (), parse_service_elms om self (children result)))"

definition refresh_application ::
  "xapi \<Rightarrow> 'o objects \<Rightarrow> 'o predefined \<Rightarrow> string \<Rightarrow> (error + unit) \<times> 'o predefined" where
  "refresh_application xapi om self name =
     (let xpath = percent SINGLE_APPLICATION_XPATH name in
      case get_xml xapi self xpath of
        (Inl e, self') \<Rightarrow> (Inl e, self')
      | (Inr xml, self') \<Rightarrow> parse_application_xml om self' xml)"

definition refresh_service ::
  "xapi \<Rightarrow> 'o objects \<Rightarrow> 'o predefined \<Rightarrow> string \<Rightarrow> (error + unit) \<times> 'o predefined" where
  "refresh_service xapi om self name =
     (let xpath = percent SINGLE_SERVICE_XPATH name in
      case get_xml xapi self xpath of
        (Inl e, self') \<Rightarrow> (Inl e, self')
      | (Inr xml, self') \<Rightarrow> parse_service_xml om self' xml)"

definition refreshall_applications ::
  "xapi \<Rightarrow> 'o objects \<Rightarrow> 'o predefined \<Rightarrow> (error + unit) \<times> 'o predefined" where
  "refreshall_applications xapi om self =
     (let xpath = ALL_APPLICATION_XPATH @ ''/entry'' in
      case get_xml xapi self xpath of
        (Inl e, self') \<Rightarrow> (Inl e, self')
      | (Inr xml, self') \<Rightarrow> parse_application_xml om self' xml)"

definition refreshall_services ::
  "xapi \<Rightarrow> 'o objects \<Rightarrow> 'o predefined \<Rightarrow> (error + unit) \<times> 'o predefined" where
  "refreshall_services xapi om self =
     (let xpath = ALL_SERVICE_XPATH @ ''/entry'' in
      case get_xml xapi self xpath of
        (Inl e, self') \<Rightarrow> (Inl e, self')
      | (Inr xml, self') \<Rightarrow> parse_service_xml om self' xml)"

definition refreshall ::
  "xapi \<Rightarrow> 'o objects \<Rightarrow> 'o predefined \<Rightarrow> (error + unit) \<times> 'o predefined" where
  "refreshall xapi om self =
     (let self1 = self\<lparr>application_objects := Map.empty\<rparr>;
          self2 = self1\<lparr>application_container_objects := Map.empty\<rparr>;
          self3 = self2\<lparr>service_objects := Map.empty\<rparr> in
      case refreshall_services xapi om self3 of
        (Inl e, self') \<Rightarrow> (Inl e, self')
      | (Inr u, self') \<Rightarrow> refreshall_applications xapi om self')"

text \<open>
  \<^verbatim>\<open>application\<close> calls itself once, with \<^verbatim>\<open>refresh_if_none=False\<close>; the
  recursion is kept, and terminates because the flag drops.
\<close>

function application ::
  "xapi \<Rightarrow> 'o objects \<Rightarrow> 'o predefined \<Rightarrow> string \<Rightarrow> bool \<Rightarrow> bool \<Rightarrow> (error + 'o option) \<times> 'o predefined" where
  "application xapi om self name refresh_if_none include_containers =
     (let obj = application_objects self name;
          obj = (if obj = None \<and> include_containers
                 then application_container_objects self name else obj) in
      if obj = None \<and> refresh_if_none then
        (case refresh_application xapi om self name of
           (Inl e, self') \<Rightarrow> (Inl e, self')
         | (Inr u, self') \<Rightarrow> application xapi om self' name False include_containers)
      else (Inr obj, self))"
  by pat_completeness auto
termination
  by (relation "measure (\<lambda>(xapi, om, self, name, refresh_if_none, include_containers).
        if refresh_if_none then 1 else 0)") auto

function service ::
  "xapi \<Rightarrow> 'o objects \<Rightarrow> 'o predefined \<Rightarrow> string \<Rightarrow> bool \<Rightarrow> (error + 'o option) \<times> 'o predefined" where
  "service xapi om self name refresh_if_none =
     (let obj = service_objects self name in
      if obj = None \<and> refresh_if_none then
        (case refresh_service xapi om self name of
           (Inl e, self') \<Rightarrow> (Inl e, self')
         | (Inr u, self') \<Rightarrow> service xapi om self' name False)
      else (Inr obj, self))"
  by pat_completeness auto
termination
  by (relation "measure (\<lambda>(xapi, om, self, name, refresh_if_none).
        if refresh_if_none then 1 else 0)") auto

text \<open>
  The loop of \<^verbatim>\<open>applications\<close> over the names in the order the set yields them;
  \<open>objs\<close> is the list built so far. \<^verbatim>\<open>if obj:\<close> holds for every object and fails
  for \<^verbatim>\<open>None\<close>.
\<close>

fun applications_loop ::
  "xapi \<Rightarrow> 'o objects \<Rightarrow> 'o predefined \<Rightarrow> string list \<Rightarrow> bool \<Rightarrow> bool \<Rightarrow> 'o list \<Rightarrow>
   (error + 'o list) \<times> 'o predefined" where
  "applications_loop xapi om self [] refresh_if_none include_containers objs = (Inr objs, self)"
| "applications_loop xapi om self (name # names) refresh_if_none include_containers objs =
     (case application xapi om self name refresh_if_none include_containers of
        (Inl e, self') \<Rightarrow> (Inl e, self')
      | (Inr None, self') \<Rightarrow>
          applications_loop xapi om self' names refresh_if_none include_containers objs
      | (Inr (Some obj), self') \<Rightarrow>
          applications_loop xapi om self' names refresh_if_none include_containers (objs @ [obj]))"

fun services_loop ::
  "xapi \<Rightarrow> 'o objects \<Rightarrow> 'o predefined \<Rightarrow> string list \<Rightarrow> bool \<Rightarrow> 'o list \<Rightarrow>
   (error + 'o list) \<times> 'o predefined" where
  "services_loop xapi om self [] refresh_if_none objs = (Inr objs, self)"
| "services_loop xapi om self (name # names) refresh_if_none objs =
     (case service xapi om self name refresh_if_none of
        (Inl e, self') \<Rightarrow> (Inl e, self')
      | (Inr None, self') \<Rightarrow> services_loop xapi om self' names refresh_if_none objs
      | (Inr (Some obj), self') \<Rightarrow>
          services_loop xapi om self' names refresh_if_none (objs @ [obj]))"

text \<open>
  \<^verbatim>\<open>for name in set(names)\<close> visits each distinct name once, in an order Python does
  not fix. The order is the parameter \<open>set_iter\<close>: \<open>set_iter names\<close> is the sequence in
  which \<^verbatim>\<open>set(names)\<close> is iterated. Every theorem about the two batch lookups asks of
  it only what Python guarantees, \<open>is_set_iter\<close>.
\<close>

definition is_set_iter :: "(string list \<Rightarrow> string list) \<Rightarrow> string list \<Rightarrow> bool" where
  "is_set_iter set_iter names \<longleftrightarrow> distinct (set_iter names) \<and> set (set_iter names) = set names"

definition applications ::
  "xapi \<Rightarrow> 'o objects \<Rightarrow> (string list \<Rightarrow> string list) \<Rightarrow> 'o predefined \<Rightarrow> string list \<Rightarrow> bool \<Rightarrow> bool \<Rightarrow>
   (error + 'o list) \<times> 'o predefined" where
  "applications xapi om set_iter self names refresh_if_none include_containers =
     applications_loop xapi om self (set_iter names) refresh_if_none include_containers []"

definition services ::
  "xapi \<Rightarrow> 'o objects \<Rightarrow> (string list \<Rightarrow> string list) \<Rightarrow> 'o predefined \<Rightarrow> string list \<Rightarrow> bool \<Rightarrow>
   (error + 'o list) \<times> 'o predefined" where
  "services xapi om set_iter self names refresh_if_none =
     services_loop xapi om self (set_iter names) refresh_if_none []"

subsection \<open>The device's answers, read as the parsers read them\<close>

text \<open>
  The definitions of this subsection are not methods of the class; the theorems use
  them to speak about an answer of the device. \<open>response_status\<close> is what a refresh
  raises or returns on an answer: the exception of the transport client, \<open>TypeError\<close>
  for a response without a \<^verbatim>\<open>result\<close> child, and a normal return otherwise.
  \<open>response_entries\<close> is the list of elements the parser loops over, empty when the
  refresh raises before the loop.
\<close>

definition response_status :: "error + xml \<Rightarrow> error + unit" where
  "response_status r =
     (case r of
        Inl e \<Rightarrow> Inl e
      | Inr root \<Rightarrow> (case xml_find root ''result'' of None \<Rightarrow> Inl TypeError | Some result \<Rightarrow> Inr ()))"

definition response_entries :: "error + xml \<Rightarrow> xml list" where
  "response_entries r =
     (case r of
        Inl e \<Rightarrow> []
      | Inr root \<Rightarrow> (case xml_find root ''result'' of None \<Rightarrow> [] | Some result \<Rightarrow> children result))"

text \<open>
  The dictionary a list of elements parses to, per kind: each element under the name of
  its object, a later element replacing an earlier one of the same name. Plain
  applications are the elements without a \<^verbatim>\<open>functions\<close> child, containers those
  with one.
\<close>

definition parsed_services :: "'o objects \<Rightarrow> xml list \<Rightarrow> (string \<rightharpoonup> 'o)" where
  "parsed_services om elms =
     map_of (rev (map (\<lambda>elm. (obj_name om (ServiceObject om elm), ServiceObject om elm)) elms))"

definition parsed_applications :: "'o objects \<Rightarrow> xml list \<Rightarrow> (string \<rightharpoonup> 'o)" where
  "parsed_applications om elms =
     map_of (rev (map (\<lambda>elm. (obj_name om (ApplicationObject om elm), ApplicationObject om elm))
               (filter (\<lambda>elm. xml_find elm ''functions'' = None) elms)))"

definition parsed_containers :: "'o objects \<Rightarrow> xml list \<Rightarrow> (string \<rightharpoonup> 'o)" where
  "parsed_containers om elms =
     map_of (rev (map (\<lambda>elm. (obj_name om (ApplicationContainer om elm), ApplicationContainer om elm))
               (filter (\<lambda>elm. xml_find elm ''functions'' \<noteq> None) elms)))"

text \<open>
  The batch lookups in the words of the spec: call the single-name lookup \<open>f\<close> for each
  name in turn, on the instance the previous call left, stopping at the first
  exception (\<open>lookups\<close>), and collect only the found results (\<open>found\<close>). The source
  builds its list by appending inside the loop instead; the theorem on the batch
  lookups compares the two.
\<close>

fun lookups ::
  "('s \<Rightarrow> string \<Rightarrow> (error + 'a option) \<times> 's) \<Rightarrow> 's \<Rightarrow> string list \<Rightarrow> (error + 'a option list) \<times> 's" where
  "lookups f s [] = (Inr [], s)"
| "lookups f s (name # names) =
     (case f s name of
        (Inl e, s') \<Rightarrow> (Inl e, s')
      | (Inr r, s') \<Rightarrow>
          (case lookups f s' names of
             (Inl e, s'') \<Rightarrow> (Inl e, s'')
           | (Inr rs, s'') \<Rightarrow> (Inr (r # rs), s'')))"

definition found :: "'a option list \<Rightarrow> 'a list" where
  "found rs = List.map_filter (\<lambda>r. r) rs"

subsection \<open>A small device and object model for concrete runs\<close>

text \<open>
  An object model whose objects record their kind and the \<^verbatim>\<open>name\<close> attribute of
  the element they were parsed from, and a device that knows one service
  (\<^verbatim>\<open>http\<close>), one plain application (\<^verbatim>\<open>ssh\<close>) and one container
  (\<^verbatim>\<open>web\<close>); it answers every other request with an empty result.
  \<open>failing_xapi\<close> is a transport client that raises on every request, and \<open>stale\<close> an
  instance holding one object per dictionary that the device does not know.
\<close>

datatype demo_object = DemoContainer string | DemoApplication string | DemoService string

fun demo_name :: "demo_object \<Rightarrow> string" where
  "demo_name (DemoContainer n) = n"
| "demo_name (DemoApplication n) = n"
| "demo_name (DemoService n) = n"

definition attr_name :: "xml \<Rightarrow> string" where
  "attr_name elm = (case map_of (attrib elm) ''name'' of None \<Rightarrow> [] | Some n \<Rightarrow> n)"

definition demo_objects :: "demo_object objects" where
  "demo_objects =
     \<lparr>ApplicationContainer = (\<lambda>elm. DemoContainer (attr_name elm)),
      ApplicationObject = (\<lambda>elm. DemoApplication (attr_name elm)),
      ServiceObject = (\<lambda>elm. DemoService (attr_name elm)),
      obj_name = demo_name\<rparr>"

definition entry :: "string \<Rightarrow> xml list \<Rightarrow> xml" where
  "entry n cs = Element ''entry'' [(''name'', n)] cs"

definition response :: "xml list \<Rightarrow> xml" where
  "response elms = Element ''response'' [(''status'', ''success'')] [Element ''result'' [] elms]"

definition demo_xapi :: xapi where
  "demo_xapi history xpath =
     (if xpath = percent SINGLE_SERVICE_XPATH ''http'' \<or> xpath = ALL_SERVICE_XPATH @ ''/entry''
      then Inr (response [entry ''http'' [Element ''protocol'' [] []]])
      else if xpath = percent SINGLE_APPLICATION_XPATH ''ssh''
      then Inr (response [entry ''ssh'' [Element ''category'' [] []]])
      else if xpath = percent SINGLE_APPLICATION_XPATH ''web''
      then Inr (response [entry ''web'' [Element ''functions'' [] []]])
      else if xpath = ALL_APPLICATION_XPATH @ ''/entry''
      then Inr (response [entry ''ssh'' [Element ''category'' [] []],
                          entry ''web'' [Element ''functions'' [] []]])
      else Inr (response []))"

definition failing_xapi :: xapi where
  "failing_xapi history xpath = Inl (PanXapiError ''No such node'')"

definition stale :: "demo_object predefined" where
  "stale =
     \<lparr>parent = [], service_objects = [''old-svc'' \<mapsto> DemoService ''old-svc''],
      application_objects = [''old-app'' \<mapsto> DemoApplication ''old-app''],
      application_container_objects = [''old-box'' \<mapsto> DemoContainer ''old-box'']\<rparr>"

section \<open>Properties\<close>

subsection \<open>What the refresh methods compute\<close>

lemma parsed_services_Nil [simp]: "parsed_services om [] = Map.empty"
  by (simp add: parsed_services_def)

lemma parsed_applications_Nil [simp]: "parsed_applications om [] = Map.empty"
  by (simp add: parsed_applications_def)

lemma parsed_containers_Nil [simp]: "parsed_containers om [] = Map.empty"
  by (simp add: parsed_containers_def)

lemma parsed_services_Cons:
  "m ++ parsed_services om (elm # elms) =
     m(obj_name om (ServiceObject om elm) \<mapsto> ServiceObject om elm) ++ parsed_services om elms"
  by (simp add: parsed_services_def)

lemma parsed_applications_Cons:
  "m ++ parsed_applications om (elm # elms) =
     (if xml_find elm ''functions'' = None
      then m(obj_name om (ApplicationObject om elm) \<mapsto> ApplicationObject om elm)
      else m) ++ parsed_applications om elms"
  by (simp add: parsed_applications_def)

lemma parsed_containers_Cons:
  "m ++ parsed_containers om (elm # elms) =
     (if xml_find elm ''functions'' \<noteq> None
      then m(obj_name om (ApplicationContainer om elm) \<mapsto> ApplicationContainer om elm)
      else m) ++ parsed_containers om elms"
  by (simp add: parsed_containers_def)

lemma dom_parsed_services:
  "dom (parsed_services om elms) = (\<lambda>elm. obj_name om (ServiceObject om elm)) ` set elms"
  by (simp add: parsed_services_def dom_map_of_conv_image_fst image_image)

lemma dom_parsed_applications:
  "dom (parsed_applications om elms) =
     (\<lambda>elm. obj_name om (ApplicationObject om elm)) `
       set (filter (\<lambda>elm. xml_find elm ''functions'' = None) elms)"
  by (simp add: parsed_applications_def dom_map_of_conv_image_fst image_image)

lemma dom_parsed_containers:
  "dom (parsed_containers om elms) =
     (\<lambda>elm. obj_name om (ApplicationContainer om elm)) `
       set (filter (\<lambda>elm. xml_find elm ''functions'' \<noteq> None) elms)"
  by (simp add: parsed_containers_def dom_map_of_conv_image_fst image_image)

lemma parse_service_elms_eq:
  "parse_service_elms om self elms =
     self\<lparr>service_objects := service_objects self ++ parsed_services om elms\<rparr>"
proof (induction elms arbitrary: self)
  case Nil
  show ?case by simp
next
  case (Cons elm elms)
  show ?case by (simp add: Cons.IH Let_def parsed_services_Cons fun_upd_def)
qed

lemma parse_application_elms_eq:
  "parse_application_elms om self elms =
     self\<lparr>application_objects := application_objects self ++ parsed_applications om elms,
          application_container_objects :=
            application_container_objects self ++ parsed_containers om elms\<rparr>"
proof (induction elms arbitrary: self)
  case Nil
  show ?case by simp
next
  case (Cons elm elms)
  show ?case
    by (simp add: Cons.IH Let_def parsed_applications_Cons parsed_containers_Cons fun_upd_def)
qed

lemma get_xml_eq:
  "get_xml xapi self xpath =
     (case xapi (parent self) xpath of
        Inl e \<Rightarrow> Inl e
      | Inr root \<Rightarrow> Inr (xml_find root ''result''),
      self\<lparr>parent := parent self @ [xpath]\<rparr>)"
  by (simp add: get_xml_def Let_def split: sum.splits)

lemma fetch_services_eq:
  "(case get_xml xapi self xpath of
      (Inl e, self') \<Rightarrow> (Inl e, self')
    | (Inr xml, self') \<Rightarrow> parse_service_xml om self' xml) =
   (response_status (xapi (parent self) xpath),
    self\<lparr>parent := parent self @ [xpath],
         service_objects :=
           service_objects self ++ parsed_services om (response_entries (xapi (parent self) xpath))\<rparr>)"
  by (simp add: get_xml_eq parse_service_xml_def parse_service_elms_eq response_status_def
      response_entries_def split: sum.splits option.splits)

lemma fetch_applications_eq:
  "(case get_xml xapi self xpath of
      (Inl e, self') \<Rightarrow> (Inl e, self')
    | (Inr xml, self') \<Rightarrow> parse_application_xml om self' xml) =
   (response_status (xapi (parent self) xpath),
    self\<lparr>parent := parent self @ [xpath],
         application_objects :=
           application_objects self ++
             parsed_applications om (response_entries (xapi (parent self) xpath)),
         application_container_objects :=
           application_container_objects self ++
             parsed_containers om (response_entries (xapi (parent self) xpath))\<rparr>)"
  by (simp add: get_xml_eq parse_application_xml_def parse_application_elms_eq response_status_def
      response_entries_def split: sum.splits option.splits)

lemma refresh_service_eq:
  "refresh_service xapi om self name =
     (response_status (xapi (parent self) (percent SINGLE_SERVICE_XPATH name)),
      self\<lparr>parent := parent self @ [percent SINGLE_SERVICE_XPATH name],
           service_objects :=
             service_objects self ++
               parsed_services om
                 (response_entries (xapi (parent self) (percent SINGLE_SERVICE_XPATH name)))\<rparr>)"
  by (simp add: refresh_service_def fetch_services_eq Let_def)

lemma refreshall_services_eq:
  "refreshall_services xapi om self =
     (response_status (xapi (parent self) (ALL_SERVICE_XPATH @ ''/entry'')),
      self\<lparr>parent := parent self @ [ALL_SERVICE_XPATH @ ''/entry''],
           service_objects :=
             service_objects self ++
               parsed_services om
                 (response_entries (xapi (parent self) (ALL_SERVICE_XPATH @ ''/entry'')))\<rparr>)"
  by (simp add: refreshall_services_def fetch_services_eq Let_def)

lemma refresh_application_eq:
  "refresh_application xapi om self name =
     (response_status (xapi (parent self) (percent SINGLE_APPLICATION_XPATH name)),
      self\<lparr>parent := parent self @ [percent SINGLE_APPLICATION_XPATH name],
           application_objects :=
             application_objects self ++
               parsed_applications om
                 (response_entries (xapi (parent self) (percent SINGLE_APPLICATION_XPATH name))),
           application_container_objects :=
             application_container_objects self ++
               parsed_containers om
                 (response_entries (xapi (parent self) (percent SINGLE_APPLICATION_XPATH name)))\<rparr>)"
  by (simp add: refresh_application_def fetch_applications_eq Let_def)

lemma refreshall_applications_eq:
  "refreshall_applications xapi om self =
     (response_status (xapi (parent self) (ALL_APPLICATION_XPATH @ ''/entry'')),
      self\<lparr>parent := parent self @ [ALL_APPLICATION_XPATH @ ''/entry''],
           application_objects :=
             application_objects self ++
               parsed_applications om
                 (response_entries (xapi (parent self) (ALL_APPLICATION_XPATH @ ''/entry''))),
           application_container_objects :=
             application_container_objects self ++
               parsed_containers om
                 (response_entries (xapi (parent self) (ALL_APPLICATION_XPATH @ ''/entry'')))\<rparr>)"
  by (simp add: refreshall_applications_def fetch_applications_eq Let_def)

lemma application_no_refresh:
  "application xapi om self name False include_containers =
     (Inr (if application_objects self name = None \<and> include_containers
           then application_container_objects self name else application_objects self name), self)"
  by (simp add: Let_def)

lemma service_no_refresh:
  "service xapi om self name False = (Inr (service_objects self name), self)"
  by (simp add: Let_def)

lemma application_miss:
  assumes "application_objects self name = None"
    and "include_containers \<longrightarrow> application_container_objects self name = None"
  shows "application xapi om self name True include_containers =
     (case refresh_application xapi om self name of
        (Inl e, self') \<Rightarrow> (Inl e, self')
      | (Inr u, self') \<Rightarrow> application xapi om self' name False include_containers)"
  using assms by (subst application.simps) (simp add: Let_def)

lemma application_hit:
  assumes "(if application_objects self name = None \<and> include_containers
           then application_container_objects self name else application_objects self name) = Some obj"
  shows "application xapi om self name refresh_if_none include_containers = (Inr (Some obj), self)"
  using assms by (subst application.simps) (simp add: Let_def)

lemma service_miss:
  assumes "service_objects self name = None"
  shows "service xapi om self name True =
     (case refresh_service xapi om self name of
        (Inl e, self') \<Rightarrow> (Inl e, self')
      | (Inr u, self') \<Rightarrow> service xapi om self' name False)"
  using assms by (subst service.simps) (simp add: Let_def)

lemma service_hit:
  assumes "service_objects self name = Some obj"
  shows "service xapi om self name refresh_if_none = (Inr (Some obj), self)"
  using assms by (subst service.simps) (simp add: Let_def)

subsection \<open>What the lookups compute\<close>

text \<open>The two recursive lookups are unfolded by hand from here on.\<close>

declare application.simps [simp del] service.simps [simp del]

lemma response_entries_status:
  "response_entries r \<noteq> [] \<Longrightarrow> response_status r = Inr ()"
  by (simp add: response_entries_def response_status_def split: sum.splits option.splits)

lemma application_eq:
  "application xapi om self name refresh_if_none include_containers =
     (if (if application_objects self name = None \<and> include_containers
          then application_container_objects self name else application_objects self name) = None
         \<and> refresh_if_none
      then (case refresh_application xapi om self name of
              (Inl e, self') \<Rightarrow> (Inl e, self')
            | (Inr u, self') \<Rightarrow>
                (Inr (if application_objects self' name = None \<and> include_containers
                      then application_container_objects self' name
                      else application_objects self' name), self'))
      else (Inr (if application_objects self name = None \<and> include_containers
                 then application_container_objects self name
                 else application_objects self name), self))"
  by (subst application.simps) (simp add: Let_def application_no_refresh split: prod.splits sum.splits)

lemma service_eq:
  "service xapi om self name refresh_if_none =
     (if service_objects self name = None \<and> refresh_if_none
      then (case refresh_service xapi om self name of
              (Inl e, self') \<Rightarrow> (Inl e, self')
            | (Inr u, self') \<Rightarrow> (Inr (service_objects self' name), self'))
      else (Inr (service_objects self name), self))"
  by (subst service.simps) (simp add: Let_def service_no_refresh split: prod.splits sum.splits)

lemma application_parent:
  "parent (snd (application xapi om self name refresh_if_none include_containers)) =
     (if (if application_objects self name = None \<and> include_containers
          then application_container_objects self name else application_objects self name) = None
         \<and> refresh_if_none
      then parent self @ [percent SINGLE_APPLICATION_XPATH name] else parent self)"
  by (simp add: application_eq refresh_application_eq split: sum.splits)

lemma service_parent:
  "parent (snd (service xapi om self name refresh_if_none)) =
     (if service_objects self name = None \<and> refresh_if_none
      then parent self @ [percent SINGLE_SERVICE_XPATH name] else parent self)"
  by (simp add: service_eq refresh_service_eq split: sum.splits)

subsection \<open>The paths, written out\<close>

lemma single_service_xpath:
  "percent SINGLE_SERVICE_XPATH name =
     ''/config/predefined/service/entry[@name='' @ [CHR 0x27] @ name @ [CHR 0x27] @ '']''"
  by (simp add: SINGLE_SERVICE_XPATH_def ALL_SERVICE_XPATH_def PREDEFINED_ROOT_XPATH_def
      SERVICE_def ENTRY_def)

lemma single_application_xpath:
  \<open>percent SINGLE_APPLICATION_XPATH name =
     ''/config/predefined//*[contains(local-name(), "application")]/entry[@name='' @
       [CHR 0x27] @ name @ [CHR 0x27] @ '']''\<close>
  by (simp add: SINGLE_APPLICATION_XPATH_def ALL_APPLICATION_XPATH_def PREDEFINED_ROOT_XPATH_def
      APPLICATION_CONTAINS_XPATH_def ENTRY_def)

lemma all_service_xpath:
  "ALL_SERVICE_XPATH @ ''/entry'' = ''/config/predefined/service/entry''"
  by (simp add: ALL_SERVICE_XPATH_def PREDEFINED_ROOT_XPATH_def SERVICE_def)

lemma all_application_xpath:
  \<open>ALL_APPLICATION_XPATH @ ''/entry'' =
     ''/config/predefined//*[contains(local-name(), "application")]/entry''\<close>
  by (simp add: ALL_APPLICATION_XPATH_def PREDEFINED_ROOT_XPATH_def APPLICATION_CONTAINS_XPATH_def)

lemmas xpaths = single_service_xpath single_application_xpath all_service_xpath all_application_xpath

lemmas demo_defs = demo_xapi_def demo_objects_def response_def entry_def attr_name_def
  response_status_def response_entries_def xml_find_def parsed_services_def
  parsed_applications_def parsed_containers_def init_def

subsection \<open>Names an answer does and does not mention\<close>

lemma parsed_services_absent:
  "name \<notin> (\<lambda>elm. obj_name om (ServiceObject om elm)) ` set elms \<Longrightarrow>
   parsed_services om elms name = None"
  using dom_parsed_services [of om elms] by blast

lemma parsed_applications_absent:
  "name \<notin> (\<lambda>elm. obj_name om (ApplicationObject om elm)) `
      set (filter (\<lambda>elm. xml_find elm ''functions'' = None) elms) \<Longrightarrow>
   parsed_applications om elms name = None"
  using dom_parsed_applications [of om elms] by blast

lemma parsed_containers_absent:
  "name \<notin> (\<lambda>elm. obj_name om (ApplicationContainer om elm)) `
      set (filter (\<lambda>elm. xml_find elm ''functions'' \<noteq> None) elms) \<Longrightarrow>
   parsed_containers om elms name = None"
  using dom_parsed_containers [of om elms] by blast

lemma parsed_services_present:
  "elm \<in> set elms \<Longrightarrow> \<exists>obj. parsed_services om elms (obj_name om (ServiceObject om elm)) = Some obj"
  using dom_parsed_services [of om elms] by blast

lemma response_entries_error:
  "response_status r = Inl e \<Longrightarrow> response_entries r = []"
  by (simp add: response_entries_def response_status_def split: sum.splits option.splits)

lemma refreshall_eq:
  "refreshall xapi om self =
     (case response_status (xapi (parent self) (ALL_SERVICE_XPATH @ ''/entry'')) of
        Inl e \<Rightarrow>
          (Inl e,
           self\<lparr>parent := parent self @ [ALL_SERVICE_XPATH @ ''/entry''],
                service_objects := Map.empty, application_objects := Map.empty,
                application_container_objects := Map.empty\<rparr>)
      | Inr u \<Rightarrow>
          (response_status
             (xapi (parent self @ [ALL_SERVICE_XPATH @ ''/entry'']) (ALL_APPLICATION_XPATH @ ''/entry'')),
           self\<lparr>parent := parent self @ [ALL_SERVICE_XPATH @ ''/entry'', ALL_APPLICATION_XPATH @ ''/entry''],
                service_objects :=
                  parsed_services om
                    (response_entries (xapi (parent self) (ALL_SERVICE_XPATH @ ''/entry''))),
                application_objects :=
                  parsed_applications om
                    (response_entries
                       (xapi (parent self @ [ALL_SERVICE_XPATH @ ''/entry''])
                          (ALL_APPLICATION_XPATH @ ''/entry''))),
                application_container_objects :=
                  parsed_containers om
                    (response_entries
                       (xapi (parent self @ [ALL_SERVICE_XPATH @ ''/entry''])
                          (ALL_APPLICATION_XPATH @ ''/entry'')))\<rparr>))"
  by (simp add: refreshall_def refreshall_services_eq refreshall_applications_eq
      response_entries_error split: sum.splits)

subsection \<open>The batch lookups\<close>

lemma found_Nil: "found [] = []"
  by (simp add: found_def List.map_filter_simps)

lemma found_Cons: "found (r # rs) = (case r of None \<Rightarrow> found rs | Some obj \<Rightarrow> obj # found rs)"
  by (simp add: found_def List.map_filter_simps split: option.splits)

lemma length_found: "length (found rs) \<le> length rs"
  by (induction rs) (simp_all add: found_Nil found_Cons split: option.splits)

lemma lookups_length:
  "lookups f s names = (Inr rs, s') \<Longrightarrow> length rs = length names"
proof (induction names arbitrary: s rs)
  case Nil
  then show ?case by simp
next
  case (Cons name names)
  then show ?case
    by (fastforce split: prod.splits sum.splits)
qed

lemma services_loop_lookups:
  "services_loop xapi om self names refresh_if_none objs =
     (case lookups (\<lambda>s name. service xapi om s name refresh_if_none) self names of
        (Inl e, self') \<Rightarrow> (Inl e, self')
      | (Inr rs, self') \<Rightarrow> (Inr (objs @ found rs), self'))"
proof (induction names arbitrary: self objs)
  case Nil
  show ?case by (simp add: found_Nil)
next
  case (Cons name names)
  show ?case
    by (simp add: Cons.IH found_Cons split: prod.splits sum.splits option.splits)
qed

lemma applications_loop_lookups:
  "applications_loop xapi om self names refresh_if_none include_containers objs =
     (case lookups (\<lambda>s name. application xapi om s name refresh_if_none include_containers)
             self names of
        (Inl e, self') \<Rightarrow> (Inl e, self')
      | (Inr rs, self') \<Rightarrow> (Inr (objs @ found rs), self'))"
proof (induction names arbitrary: self objs)
  case Nil
  show ?case by (simp add: found_Nil)
next
  case (Cons name names)
  show ?case
    by (simp add: Cons.IH found_Cons split: prod.splits sum.splits option.splits)
qed

lemma service_parent_le:
  "length (parent (snd (service xapi om self name refresh_if_none))) \<le> Suc (length (parent self))"
  by (simp add: service_parent)

lemma application_parent_le:
  "length (parent (snd (application xapi om self name refresh_if_none include_containers)))
     \<le> Suc (length (parent self))"
  by (simp add: application_parent)

lemma services_loop_parent:
  "length (parent (snd (services_loop xapi om self names refresh_if_none objs)))
     \<le> length (parent self) + length names"
proof (induction names arbitrary: self objs)
  case Nil
  show ?case by simp
next
  case (Cons name names)
  obtain r self' where step: "service xapi om self name refresh_if_none = (r, self')"
    by (cases "service xapi om self name refresh_if_none")
  from service_parent_le [of xapi om self name refresh_if_none] step
  have le: "length (parent self') \<le> Suc (length (parent self))" by simp
  show ?case
  proof (cases r)
    case (Inl e)
    with step le show ?thesis by simp
  next
    case (Inr found_obj)
    show ?thesis
    proof (cases found_obj)
      case None
      from Cons.IH [of self' objs] le show ?thesis
        by (simp add: step Inr None)
    next
      case (Some obj)
      from Cons.IH [of self' "objs @ [obj]"] le show ?thesis
        by (simp add: step Inr Some)
    qed
  qed
qed

lemma applications_loop_parent:
  "length (parent (snd (applications_loop xapi om self names refresh_if_none include_containers objs)))
     \<le> length (parent self) + length names"
proof (induction names arbitrary: self objs)
  case Nil
  show ?case by simp
next
  case (Cons name names)
  obtain r self' where step:
    "application xapi om self name refresh_if_none include_containers = (r, self')"
    by (cases "application xapi om self name refresh_if_none include_containers")
  from application_parent_le [of xapi om self name refresh_if_none include_containers] step
  have le: "length (parent self') \<le> Suc (length (parent self))" by simp
  show ?case
  proof (cases r)
    case (Inl e)
    with step le show ?thesis by simp
  next
    case (Inr found_obj)
    show ?thesis
    proof (cases found_obj)
      case None
      from Cons.IH [of self' objs] le show ?thesis
        by (simp add: step Inr None)
    next
      case (Some obj)
      from Cons.IH [of self' "objs @ [obj]"] le show ?thesis
        by (simp add: step Inr Some)
    qed
  qed
qed

lemma service_returns:
  assumes "\<forall>history xpath. response_status (xapi history xpath) = Inr ()"
  shows "\<exists>r self'. service xapi om self name refresh_if_none = (Inr r, self')"
  using assms by (simp add: service_eq refresh_service_eq)

lemma application_returns:
  assumes "\<forall>history xpath. response_status (xapi history xpath) = Inr ()"
  shows "\<exists>r self'. application xapi om self name refresh_if_none include_containers = (Inr r, self')"
  using assms by (simp add: application_eq refresh_application_eq)

lemma services_loop_returns:
  assumes "\<forall>history xpath. response_status (xapi history xpath) = Inr ()"
  shows "\<exists>objs' self'. services_loop xapi om self names refresh_if_none objs = (Inr objs', self')"
proof (induction names arbitrary: self objs)
  case Nil
  show ?case by simp
next
  case (Cons name names)
  from service_returns [OF assms, of om self name refresh_if_none]
  obtain r self' where step: "service xapi om self name refresh_if_none = (Inr r, self')"
    by blast
  show ?case
  proof (cases r)
    case None
    from Cons.IH [of self' objs] show ?thesis by (simp add: step None)
  next
    case (Some obj)
    from Cons.IH [of self' "objs @ [obj]"] show ?thesis by (simp add: step Some)
  qed
qed

lemma applications_loop_returns:
  assumes "\<forall>history xpath. response_status (xapi history xpath) = Inr ()"
  shows "\<exists>objs' self'.
           applications_loop xapi om self names refresh_if_none include_containers objs =
             (Inr objs', self')"
proof (induction names arbitrary: self objs)
  case Nil
  show ?case by simp
next
  case (Cons name names)
  from application_returns [OF assms, of om self name refresh_if_none include_containers]
  obtain r self' where step:
    "application xapi om self name refresh_if_none include_containers = (Inr r, self')"
    by blast
  show ?case
  proof (cases r)
    case None
    from Cons.IH [of self' objs] show ?thesis by (simp add: step None)
  next
    case (Some obj)
    from Cons.IH [of self' "objs @ [obj]"] show ?thesis by (simp add: step Some)
  qed
qed

lemma services_loop_no_refresh:
  "services_loop xapi om self names False objs =
     (Inr (objs @ List.map_filter (service_objects self) names), self)"
  by (induction names arbitrary: objs)
    (simp_all add: service_no_refresh List.map_filter_simps split: option.splits)

lemma applications_loop_no_refresh:
  "applications_loop xapi om self names False include_containers objs =
     (Inr (objs @ List.map_filter
                    (\<lambda>name. if application_objects self name = None \<and> include_containers
                            then application_container_objects self name
                            else application_objects self name) names), self)"
proof -
  define cached where
    "cached = (\<lambda>name. if application_objects self name = None \<and> include_containers
                       then application_container_objects self name
                       else application_objects self name)"
  have step: "application xapi om self name False include_containers = (Inr (cached name), self)"
    for name
    by (simp add: application_no_refresh cached_def)
  have "applications_loop xapi om self names False include_containers objs =
          (Inr (objs @ List.map_filter cached names), self)"
    by (induction names arbitrary: objs)
      (simp_all add: step List.map_filter_simps split: option.splits)
  then show ?thesis
    unfolding cached_def .
qed

lemma services_loop_length:
  assumes "services_loop xapi om self names refresh_if_none [] = (Inr objs, self')"
  shows "length objs \<le> length names"
proof -
  from assms obtain rs where
    rs: "lookups (\<lambda>s name. service xapi om s name refresh_if_none) self names = (Inr rs, self')"
    and objs: "objs = found rs"
    by (auto simp: services_loop_lookups split: prod.splits sum.splits)
  from lookups_length [OF rs] length_found [of rs] objs show ?thesis by simp
qed

lemma applications_loop_length:
  assumes "applications_loop xapi om self names refresh_if_none include_containers [] =
             (Inr objs, self')"
  shows "length objs \<le> length names"
proof -
  from assms obtain rs where
    rs: "lookups (\<lambda>s name. application xapi om s name refresh_if_none include_containers)
           self names = (Inr rs, self')"
    and objs: "objs = found rs"
    by (auto simp: applications_loop_lookups split: prod.splits sum.splits)
  from lookups_length [OF rs] length_found [of rs] objs show ?thesis by simp
qed

lemma is_set_iter_length: "is_set_iter set_iter names \<Longrightarrow> length (set_iter names) = card (set names)"
  using distinct_card [of "set_iter names"] by (simp add: is_set_iter_def)

section \<open>The claims\<close>

text \<open>
  Claim C1. When \<open>name\<close> is in neither the application nor the container dictionary,
  \<open>application\<close> with \<open>refresh_if_none = True\<close> is one call of \<open>refresh_application\<close>
  followed, when that call returns, by the same lookup with \<open>refresh_if_none = False\<close>
  (an exception of the refresh is passed on instead). Exactly one request goes to the
  device, for the single-application path of \<open>name\<close>. The repeated lookup changes
  nothing, so there is no second refresh, and when the name is still in neither
  dictionary after the refresh the result is \<^verbatim>\<open>None\<close>.
\<close>

theorem application_single_refresh:
  assumes "application_objects self name = None"
    and "application_container_objects self name = None"
  shows "application xapi om self name True include_containers =
           (case refresh_application xapi om self name of
              (Inl e, self') \<Rightarrow> (Inl e, self')
            | (Inr u, self') \<Rightarrow> application xapi om self' name False include_containers)
       \<and> parent (snd (application xapi om self name True include_containers)) =
           parent self @ [percent SINGLE_APPLICATION_XPATH name]
       \<and> (\<forall>self'. snd (application xapi om self' name False include_containers) = self')
       \<and> (\<forall>self'. refresh_application xapi om self name = (Inr (), self')
             \<and> application_objects self' name = None
             \<and> application_container_objects self' name = None
           \<longrightarrow> application xapi om self name True include_containers = (Inr None, self'))"
proof -
  have retry: "application xapi om self name True include_containers =
           (case refresh_application xapi om self name of
              (Inl e, self') \<Rightarrow> (Inl e, self')
            | (Inr u, self') \<Rightarrow> application xapi om self' name False include_containers)"
    using assms by (simp add: application_miss)
  have one: "parent (snd (application xapi om self name True include_containers)) =
           parent self @ [percent SINGLE_APPLICATION_XPATH name]"
    using assms by (simp add: application_parent)
  have pure: "\<forall>self'. snd (application xapi om self' name False include_containers) = self'"
    by (simp add: application_no_refresh)
  have absent: "\<forall>self'. refresh_application xapi om self name = (Inr (), self')
             \<and> application_objects self' name = None
             \<and> application_container_objects self' name = None
           \<longrightarrow> application xapi om self name True include_containers = (Inr None, self')"
    by (simp add: retry application_no_refresh)
  from retry one pure absent show ?thesis by blast
qed

theorem application_single_refresh_witness:
  "application_objects (init [] :: demo_object predefined) ''missing'' = None
   \<and> application_container_objects (init [] :: demo_object predefined) ''missing'' = None
   \<and> application demo_xapi demo_objects (init []) ''missing'' True True = (Inr None,
         (init []) \<lparr>parent := [percent SINGLE_APPLICATION_XPATH ''missing'']\<rparr>)
   \<and> parent (snd (application demo_xapi demo_objects (init []) ''missing'' True True)) =
       parent (init [] :: demo_object predefined) @ [percent SINGLE_APPLICATION_XPATH ''missing'']"
proof -
  have absent1: "application_objects (init [] :: demo_object predefined) ''missing'' = None"
    by (simp add: init_def)
  have absent2: "application_container_objects (init [] :: demo_object predefined) ''missing'' = None"
    by (simp add: init_def)
  note claim = application_single_refresh [OF absent1 absent2, of demo_xapi demo_objects True]
  have refreshed: "refresh_application demo_xapi demo_objects (init []) ''missing'' =
      (Inr (), (init []) \<lparr>parent := [percent SINGLE_APPLICATION_XPATH ''missing'']\<rparr>)"
    by (simp add: refresh_application_eq xpaths demo_defs)
  have still:
    "application_objects
       ((init [] :: demo_object predefined)
          \<lparr>parent := [percent SINGLE_APPLICATION_XPATH ''missing'']\<rparr>) ''missing'' = None
     \<and> application_container_objects
       ((init [] :: demo_object predefined)
          \<lparr>parent := [percent SINGLE_APPLICATION_XPATH ''missing'']\<rparr>) ''missing'' = None"
    by (simp add: init_def)
  from claim have one: "parent (snd (application demo_xapi demo_objects (init []) ''missing'' True True)) =
       parent (init [] :: demo_object predefined) @ [percent SINGLE_APPLICATION_XPATH ''missing'']"
    by (elim conjE)
  from claim have "\<forall>self'. refresh_application demo_xapi demo_objects (init []) ''missing'' = (Inr (), self')
             \<and> application_objects self' ''missing'' = None
             \<and> application_container_objects self' ''missing'' = None
           \<longrightarrow> application demo_xapi demo_objects (init []) ''missing'' True True = (Inr None, self')"
    by (elim conjE)
  with refreshed still have none: "application demo_xapi demo_objects (init []) ''missing'' True True =
      (Inr None, (init []) \<lparr>parent := [percent SINGLE_APPLICATION_XPATH ''missing'']\<rparr>)"
    by (elim allE impE) (rule conjI, assumption+)
  from absent1 absent2 none one show ?thesis by (intro conjI)
qed

text \<open>
  Claim C2. The device reports that it has no such object through the transport
  client, which raises. Whatever exception \<open>e\<close> the transport client raises on the
  single-application request for \<open>name\<close>, \<open>refresh_application\<close> fails with that same
  exception: it is passed on to the caller as it is, the request having been made and
  the three dictionaries left as they were.
\<close>

theorem refresh_application_propagates:
  assumes "xapi (parent self) (percent SINGLE_APPLICATION_XPATH name) = Inl e"
  shows "refresh_application xapi om self name =
           (Inl e, self\<lparr>parent := parent self @ [percent SINGLE_APPLICATION_XPATH name]\<rparr>)"
  using assms by (simp add: refresh_application_eq response_status_def response_entries_def)

theorem refresh_application_propagates_witness:
  "failing_xapi (parent stale) (percent SINGLE_APPLICATION_XPATH ''ssh'') =
     Inl (PanXapiError ''No such node'')
   \<and> refresh_application failing_xapi demo_objects stale ''ssh'' =
     (Inl (PanXapiError ''No such node''),
      stale\<lparr>parent := parent stale @ [percent SINGLE_APPLICATION_XPATH ''ssh'']\<rparr>)"
proof -
  have raises: "failing_xapi (parent stale) (percent SINGLE_APPLICATION_XPATH ''ssh'') =
      Inl (PanXapiError ''No such node'')"
    by (simp add: failing_xapi_def)
  note claim = refresh_application_propagates
    [where xapi = failing_xapi and self = stale and name = "''ssh''"
       and e = "PanXapiError ''No such node''" and om = demo_objects]
  from raises claim [OF raises] show ?thesis by (intro conjI)
qed

text \<open>
  Claim C3. Each element an application refresh processes updates one dictionary: the
  container dictionary, with the element parsed as a container, when it has a
  \<^verbatim>\<open>functions\<close> child, and the application dictionary, with the element parsed as
  a plain application, when it has none; the key is the name of the parsed object.
  Over a whole result, the container dictionary receives exactly the elements with a
  \<^verbatim>\<open>functions\<close> child and the application dictionary exactly the others, a later
  element replacing an earlier one of the same name; the service dictionary and the
  device are not touched. \<open>refresh_application\<close> and \<open>refreshall_applications\<close> both
  process their result with this method.
\<close>

theorem application_entries_classified:
  "parse_application_elms om self (elm # elms) =
     parse_application_elms om
       (if xml_find elm ''functions'' \<noteq> None
        then self\<lparr>application_container_objects :=
               (application_container_objects self)
                 (obj_name om (ApplicationContainer om elm) \<mapsto> ApplicationContainer om elm)\<rparr>
        else self\<lparr>application_objects :=
               (application_objects self)
                 (obj_name om (ApplicationObject om elm) \<mapsto> ApplicationObject om elm)\<rparr>) elms
   \<and> fst (parse_application_xml om self (Some result)) = Inr ()
   \<and> application_container_objects (snd (parse_application_xml om self (Some result))) =
     application_container_objects self ++
       map_of (rev (map (\<lambda>elm. (obj_name om (ApplicationContainer om elm), ApplicationContainer om elm))
                 (filter (\<lambda>elm. xml_find elm ''functions'' \<noteq> None) (children result))))
   \<and> application_objects (snd (parse_application_xml om self (Some result))) =
     application_objects self ++
       map_of (rev (map (\<lambda>elm. (obj_name om (ApplicationObject om elm), ApplicationObject om elm))
                 (filter (\<lambda>elm. xml_find elm ''functions'' = None) (children result))))
   \<and> service_objects (snd (parse_application_xml om self (Some result))) = service_objects self
   \<and> parent (snd (parse_application_xml om self (Some result))) = parent self"
proof -
  have step: "parse_application_elms om self (elm # elms) =
     parse_application_elms om
       (if xml_find elm ''functions'' \<noteq> None
        then self\<lparr>application_container_objects :=
               (application_container_objects self)
                 (obj_name om (ApplicationContainer om elm) \<mapsto> ApplicationContainer om elm)\<rparr>
        else self\<lparr>application_objects :=
               (application_objects self)
                 (obj_name om (ApplicationObject om elm) \<mapsto> ApplicationObject om elm)\<rparr>) elms"
    by (simp add: Let_def)
  have whole: "parse_application_xml om self (Some result) =
      (Inr (),
       self\<lparr>application_objects :=
              application_objects self ++ parsed_applications om (children result),
            application_container_objects :=
              application_container_objects self ++ parsed_containers om (children result)\<rparr>)"
    by (simp add: parse_application_xml_def parse_application_elms_eq)
  show ?thesis
    by (simp only: step whole fst_conv snd_conv parsed_containers_def parsed_applications_def)
      simp
qed

text \<open>
  Claim C4. \<open>refreshall\<close> empties the three dictionaries, then runs
  \<open>refreshall_services\<close> and, when that returns, \<open>refreshall_applications\<close>. Afterwards
  a name that no entry of the bulk service answer parses to is not in the service
  dictionary, and likewise for the plain entries and the container entries of the bulk
  application answer: nothing from before the call is kept. When the call returns
  normally the device has received the two bulk requests, services first.
\<close>

theorem refreshall_replaces:
  "refreshall xapi om self =
     (case refreshall_services xapi om
             (self\<lparr>application_objects := Map.empty, application_container_objects := Map.empty,
                   service_objects := Map.empty\<rparr>) of
        (Inl e, self') \<Rightarrow> (Inl e, self')
      | (Inr u, self') \<Rightarrow> refreshall_applications xapi om self')
   \<and> (\<forall>name. name \<notin> (\<lambda>elm. obj_name om (ServiceObject om elm)) `
         set (response_entries (xapi (parent self) (ALL_SERVICE_XPATH @ ''/entry'')))
       \<longrightarrow> service_objects (snd (refreshall xapi om self)) name = None)
   \<and> (\<forall>name. name \<notin> (\<lambda>elm. obj_name om (ApplicationObject om elm)) `
         set (filter (\<lambda>elm. xml_find elm ''functions'' = None)
            (response_entries
               (xapi (parent self @ [ALL_SERVICE_XPATH @ ''/entry''])
                  (ALL_APPLICATION_XPATH @ ''/entry''))))
       \<longrightarrow> application_objects (snd (refreshall xapi om self)) name = None)
   \<and> (\<forall>name. name \<notin> (\<lambda>elm. obj_name om (ApplicationContainer om elm)) `
         set (filter (\<lambda>elm. xml_find elm ''functions'' \<noteq> None)
            (response_entries
               (xapi (parent self @ [ALL_SERVICE_XPATH @ ''/entry''])
                  (ALL_APPLICATION_XPATH @ ''/entry''))))
       \<longrightarrow> application_container_objects (snd (refreshall xapi om self)) name = None)
   \<and> (fst (refreshall xapi om self) = Inr () \<longrightarrow>
        parent (snd (refreshall xapi om self)) =
          parent self @ [ALL_SERVICE_XPATH @ ''/entry'', ALL_APPLICATION_XPATH @ ''/entry''])"
proof -
  have order: "refreshall xapi om self =
     (case refreshall_services xapi om
             (self\<lparr>application_objects := Map.empty, application_container_objects := Map.empty,
                   service_objects := Map.empty\<rparr>) of
        (Inl e, self') \<Rightarrow> (Inl e, self')
      | (Inr u, self') \<Rightarrow> refreshall_applications xapi om self')"
    by (simp add: refreshall_def)
  have svc: "\<forall>name. name \<notin> (\<lambda>elm. obj_name om (ServiceObject om elm)) `
         set (response_entries (xapi (parent self) (ALL_SERVICE_XPATH @ ''/entry'')))
       \<longrightarrow> service_objects (snd (refreshall xapi om self)) name = None"
    by (simp add: refreshall_eq parsed_services_absent split: sum.splits)
  have app: "\<forall>name. name \<notin> (\<lambda>elm. obj_name om (ApplicationObject om elm)) `
         set (filter (\<lambda>elm. xml_find elm ''functions'' = None)
            (response_entries
               (xapi (parent self @ [ALL_SERVICE_XPATH @ ''/entry''])
                  (ALL_APPLICATION_XPATH @ ''/entry''))))
       \<longrightarrow> application_objects (snd (refreshall xapi om self)) name = None"
    by (simp add: refreshall_eq parsed_applications_absent split: sum.splits)
  have box: "\<forall>name. name \<notin> (\<lambda>elm. obj_name om (ApplicationContainer om elm)) `
         set (filter (\<lambda>elm. xml_find elm ''functions'' \<noteq> None)
            (response_entries
               (xapi (parent self @ [ALL_SERVICE_XPATH @ ''/entry''])
                  (ALL_APPLICATION_XPATH @ ''/entry''))))
       \<longrightarrow> application_container_objects (snd (refreshall xapi om self)) name = None"
    by (simp add: refreshall_eq parsed_containers_absent split: sum.splits)
  have calls: "fst (refreshall xapi om self) = Inr () \<longrightarrow>
        parent (snd (refreshall xapi om self)) =
          parent self @ [ALL_SERVICE_XPATH @ ''/entry'', ALL_APPLICATION_XPATH @ ''/entry'']"
    by (simp add: refreshall_eq split: sum.splits)
  from order svc app box calls show ?thesis by blast
qed

theorem refreshall_replaces_witness:
  "service_objects stale ''old-svc'' = Some (DemoService ''old-svc'')
   \<and> application_objects stale ''old-app'' = Some (DemoApplication ''old-app'')
   \<and> application_container_objects stale ''old-box'' = Some (DemoContainer ''old-box'')
   \<and> fst (refreshall demo_xapi demo_objects stale) = Inr ()
   \<and> service_objects (snd (refreshall demo_xapi demo_objects stale)) ''old-svc'' = None
   \<and> application_objects (snd (refreshall demo_xapi demo_objects stale)) ''old-app'' = None
   \<and> application_container_objects (snd (refreshall demo_xapi demo_objects stale)) ''old-box'' = None
   \<and> parent (snd (refreshall demo_xapi demo_objects stale)) =
       parent stale @ [ALL_SERVICE_XPATH @ ''/entry'', ALL_APPLICATION_XPATH @ ''/entry'']"
proof -
  note claim = refreshall_replaces [of demo_xapi demo_objects stale]
  have before: "service_objects stale ''old-svc'' = Some (DemoService ''old-svc'')
      \<and> application_objects stale ''old-app'' = Some (DemoApplication ''old-app'')
      \<and> application_container_objects stale ''old-box'' = Some (DemoContainer ''old-box'')"
    by (simp add: stale_def)
  have ok: "fst (refreshall demo_xapi demo_objects stale) = Inr ()"
    by (simp add: stale_def refreshall_eq xpaths demo_defs)
  have svc: "''old-svc'' \<notin> (\<lambda>elm. obj_name demo_objects (ServiceObject demo_objects elm)) `
         set (response_entries (demo_xapi (parent stale) (ALL_SERVICE_XPATH @ ''/entry'')))"
    by (simp add: xpaths demo_defs)
  have app: "''old-app'' \<notin> (\<lambda>elm. obj_name demo_objects (ApplicationObject demo_objects elm)) `
         set (filter (\<lambda>elm. xml_find elm ''functions'' = None)
            (response_entries
               (demo_xapi (parent stale @ [ALL_SERVICE_XPATH @ ''/entry''])
                  (ALL_APPLICATION_XPATH @ ''/entry''))))"
    by (simp add: xpaths demo_defs)
  have box: "''old-box'' \<notin> (\<lambda>elm. obj_name demo_objects (ApplicationContainer demo_objects elm)) `
         set (filter (\<lambda>elm. xml_find elm ''functions'' \<noteq> None)
            (response_entries
               (demo_xapi (parent stale @ [ALL_SERVICE_XPATH @ ''/entry''])
                  (ALL_APPLICATION_XPATH @ ''/entry''))))"
    by (simp add: xpaths demo_defs)
  from claim before ok svc app box show ?thesis by blast
qed

text \<open>
  Claim C5. \<open>refreshall_applications\<close> leaves the service dictionary as it is, and in
  the application and container dictionaries it leaves every name alone that no entry
  of the bulk answer (plain, respectively container) parses to.
  \<open>refreshall_services\<close> does the same with the roles swapped.
\<close>

theorem bulk_refresh_is_additive:
  "service_objects (snd (refreshall_applications xapi om self)) = service_objects self
   \<and> (\<forall>name. name \<notin> (\<lambda>elm. obj_name om (ApplicationObject om elm)) `
         set (filter (\<lambda>elm. xml_find elm ''functions'' = None)
                (response_entries (xapi (parent self) (ALL_APPLICATION_XPATH @ ''/entry''))))
       \<longrightarrow> application_objects (snd (refreshall_applications xapi om self)) name =
           application_objects self name)
   \<and> (\<forall>name. name \<notin> (\<lambda>elm. obj_name om (ApplicationContainer om elm)) `
         set (filter (\<lambda>elm. xml_find elm ''functions'' \<noteq> None)
                (response_entries (xapi (parent self) (ALL_APPLICATION_XPATH @ ''/entry''))))
       \<longrightarrow> application_container_objects (snd (refreshall_applications xapi om self)) name =
           application_container_objects self name)
   \<and> application_objects (snd (refreshall_services xapi om self)) = application_objects self
   \<and> application_container_objects (snd (refreshall_services xapi om self)) =
       application_container_objects self
   \<and> (\<forall>name. name \<notin> (\<lambda>elm. obj_name om (ServiceObject om elm)) `
         set (response_entries (xapi (parent self) (ALL_SERVICE_XPATH @ ''/entry'')))
       \<longrightarrow> service_objects (snd (refreshall_services xapi om self)) name =
           service_objects self name)"
  by (simp add: refreshall_applications_eq refreshall_services_eq map_add_def
      parsed_services_absent parsed_applications_absent parsed_containers_absent)

theorem bulk_refresh_is_additive_witness:
  "application_objects (snd (refreshall_applications demo_xapi demo_objects stale)) ''old-app'' =
     Some (DemoApplication ''old-app'')
   \<and> application_container_objects (snd (refreshall_applications demo_xapi demo_objects stale))
       ''old-box'' = Some (DemoContainer ''old-box'')
   \<and> service_objects (snd (refreshall_services demo_xapi demo_objects stale)) ''old-svc'' =
     Some (DemoService ''old-svc'')"
proof -
  note claim = bulk_refresh_is_additive [of demo_xapi demo_objects stale]
  have before: "service_objects stale ''old-svc'' = Some (DemoService ''old-svc'')
      \<and> application_objects stale ''old-app'' = Some (DemoApplication ''old-app'')
      \<and> application_container_objects stale ''old-box'' = Some (DemoContainer ''old-box'')"
    by (simp add: stale_def)
  have svc: "''old-svc'' \<notin> (\<lambda>elm. obj_name demo_objects (ServiceObject demo_objects elm)) `
         set (response_entries (demo_xapi (parent stale) (ALL_SERVICE_XPATH @ ''/entry'')))"
    by (simp add: xpaths demo_defs)
  have app: "''old-app'' \<notin> (\<lambda>elm. obj_name demo_objects (ApplicationObject demo_objects elm)) `
         set (filter (\<lambda>elm. xml_find elm ''functions'' = None)
                (response_entries (demo_xapi (parent stale) (ALL_APPLICATION_XPATH @ ''/entry''))))"
    by (simp add: xpaths demo_defs)
  have box: "''old-box'' \<notin> (\<lambda>elm. obj_name demo_objects (ApplicationContainer demo_objects elm)) `
         set (filter (\<lambda>elm. xml_find elm ''functions'' \<noteq> None)
                (response_entries (demo_xapi (parent stale) (ALL_APPLICATION_XPATH @ ''/entry''))))"
    by (simp add: xpaths demo_defs)
  from claim before svc app box show ?thesis by metis
qed

text \<open>
  Claim C6. \<open>services\<close> iterates the distinct names: it is the sequence of single-name
  lookups (\<open>lookups\<close>) over them, one per distinct name, and it returns the objects
  found (\<open>found\<close>), leaving out the names whose lookup gave \<^verbatim>\<open>None\<close>. So a returned
  list is at most as long as the number of distinct names, the device receives at most
  one request per distinct name, and as long as the transport client raises nothing
  and every answer has a result element the call returns a list, whatever names are
  missing. With \<open>refresh_if_none = False\<close> it returns exactly the cached objects of the
  names. The same holds for \<open>applications\<close>.
\<close>

theorem batch_lookups_best_effort:
  assumes "is_set_iter set_iter names"
  shows "services xapi om set_iter self names refresh_if_none =
           (case lookups (\<lambda>s name. service xapi om s name refresh_if_none) self (set_iter names) of
              (Inl e, self') \<Rightarrow> (Inl e, self')
            | (Inr rs, self') \<Rightarrow> (Inr (found rs), self'))
       \<and> (\<forall>rs self'.
             lookups (\<lambda>s name. service xapi om s name refresh_if_none) self (set_iter names) =
               (Inr rs, self')
           \<longrightarrow> length rs = card (set names))
       \<and> (\<forall>objs self'. services xapi om set_iter self names refresh_if_none = (Inr objs, self')
           \<longrightarrow> length objs \<le> card (set names))
       \<and> length (parent (snd (services xapi om set_iter self names refresh_if_none)))
           \<le> length (parent self) + card (set names)
       \<and> ((\<forall>history xpath. response_status (xapi history xpath) = Inr ())
           \<longrightarrow> (\<exists>objs self'. services xapi om set_iter self names refresh_if_none = (Inr objs, self')))
       \<and> services xapi om set_iter self names False =
           (Inr (List.map_filter (service_objects self) (set_iter names)), self)
       \<and> applications xapi om set_iter self names refresh_if_none include_containers =
           (case lookups (\<lambda>s name. application xapi om s name refresh_if_none include_containers)
                   self (set_iter names) of
              (Inl e, self') \<Rightarrow> (Inl e, self')
            | (Inr rs, self') \<Rightarrow> (Inr (found rs), self'))
       \<and> (\<forall>rs self'.
             lookups (\<lambda>s name. application xapi om s name refresh_if_none include_containers)
               self (set_iter names) = (Inr rs, self')
           \<longrightarrow> length rs = card (set names))
       \<and> (\<forall>objs self'.
             applications xapi om set_iter self names refresh_if_none include_containers =
               (Inr objs, self')
           \<longrightarrow> length objs \<le> card (set names))
       \<and> length (parent (snd (applications xapi om set_iter self names refresh_if_none
                                  include_containers)))
           \<le> length (parent self) + card (set names)
       \<and> ((\<forall>history xpath. response_status (xapi history xpath) = Inr ())
           \<longrightarrow> (\<exists>objs self'.
                 applications xapi om set_iter self names refresh_if_none include_containers =
                   (Inr objs, self')))
       \<and> applications xapi om set_iter self names False include_containers =
           (Inr (List.map_filter
                   (\<lambda>name. if application_objects self name = None \<and> include_containers
                           then application_container_objects self name
                           else application_objects self name) (set_iter names)), self)"
proof -
  note n = is_set_iter_length [OF assms]
  have s1: "services xapi om set_iter self names refresh_if_none =
           (case lookups (\<lambda>s name. service xapi om s name refresh_if_none) self (set_iter names) of
              (Inl e, self') \<Rightarrow> (Inl e, self')
            | (Inr rs, self') \<Rightarrow> (Inr (found rs), self'))"
    by (simp add: services_def services_loop_lookups split: prod.splits sum.splits)
  have s2: "\<forall>rs self'.
             lookups (\<lambda>s name. service xapi om s name refresh_if_none) self (set_iter names) =
               (Inr rs, self')
           \<longrightarrow> length rs = card (set names)"
    using lookups_length n by fastforce
  have s3: "\<forall>objs self'. services xapi om set_iter self names refresh_if_none = (Inr objs, self')
           \<longrightarrow> length objs \<le> card (set names)"
    using services_loop_length n unfolding services_def by fastforce
  have s4: "length (parent (snd (services xapi om set_iter self names refresh_if_none)))
           \<le> length (parent self) + card (set names)"
    using services_loop_parent [of xapi om self "set_iter names" refresh_if_none "[]"] n
    by (simp add: services_def)
  have s5: "(\<forall>history xpath. response_status (xapi history xpath) = Inr ())
           \<longrightarrow> (\<exists>objs self'. services xapi om set_iter self names refresh_if_none = (Inr objs, self'))"
    using services_loop_returns [of xapi om self "set_iter names" refresh_if_none "[]"]
    by (simp add: services_def)
  have s6: "services xapi om set_iter self names False =
           (Inr (List.map_filter (service_objects self) (set_iter names)), self)"
    by (simp add: services_def services_loop_no_refresh)
  have a1: "applications xapi om set_iter self names refresh_if_none include_containers =
           (case lookups (\<lambda>s name. application xapi om s name refresh_if_none include_containers)
                   self (set_iter names) of
              (Inl e, self') \<Rightarrow> (Inl e, self')
            | (Inr rs, self') \<Rightarrow> (Inr (found rs), self'))"
    by (simp add: applications_def applications_loop_lookups split: prod.splits sum.splits)
  have a2: "\<forall>rs self'.
             lookups (\<lambda>s name. application xapi om s name refresh_if_none include_containers)
               self (set_iter names) = (Inr rs, self')
           \<longrightarrow> length rs = card (set names)"
    using lookups_length n by fastforce
  have a3: "\<forall>objs self'.
             applications xapi om set_iter self names refresh_if_none include_containers =
               (Inr objs, self')
           \<longrightarrow> length objs \<le> card (set names)"
    using applications_loop_length n unfolding applications_def by fastforce
  have a4: "length (parent (snd (applications xapi om set_iter self names refresh_if_none
                                  include_containers)))
           \<le> length (parent self) + card (set names)"
    using applications_loop_parent
      [of xapi om self "set_iter names" refresh_if_none include_containers "[]"] n
    by (simp add: applications_def)
  have a5: "(\<forall>history xpath. response_status (xapi history xpath) = Inr ())
           \<longrightarrow> (\<exists>objs self'.
                 applications xapi om set_iter self names refresh_if_none include_containers =
                   (Inr objs, self'))"
    using applications_loop_returns
      [of xapi om self "set_iter names" refresh_if_none include_containers "[]"]
    by (simp add: applications_def)
  have a6: "applications xapi om set_iter self names False include_containers =
           (Inr (List.map_filter
                   (\<lambda>name. if application_objects self name = None \<and> include_containers
                           then application_container_objects self name
                           else application_objects self name) (set_iter names)), self)"
    by (simp add: applications_def applications_loop_no_refresh)
  from s1 s2 s3 s4 s5 s6 a1 a2 a3 a4 a5 a6 show ?thesis
    by (intro conjI)
qed

theorem batch_lookups_best_effort_witness:
  "is_set_iter remdups [''http'', ''http'', ''B'']
   \<and> fst (services demo_xapi demo_objects remdups (init []) [''http'', ''http'', ''B''] True) =
       Inr [DemoService ''http'']
   \<and> parent (snd (services demo_xapi demo_objects remdups (init []) [''http'', ''http'', ''B''] True)) =
       [percent SINGLE_SERVICE_XPATH ''http'', percent SINGLE_SERVICE_XPATH ''B'']
   \<and> length (parent (snd (services demo_xapi demo_objects remdups (init [])
                             [''http'', ''http'', ''B''] True)))
       \<le> length (parent (init [] :: demo_object predefined)) + card (set [''http'', ''http'', ''B''])
   \<and> (\<exists>objs self'.
         applications demo_xapi demo_objects remdups (init []) [''http'', ''http'', ''B''] True True =
           (Inr objs, self'))"
proof -
  have iter: "is_set_iter remdups [''http'', ''http'', ''B'']"
    by (simp add: is_set_iter_def)
  note claim = batch_lookups_best_effort
    [OF iter, of demo_xapi demo_objects "init []" True True]
  have device: "\<forall>history xpath. response_status (demo_xapi history xpath) = Inr ()"
    by (simp add: demo_defs)
  have run: "services demo_xapi demo_objects remdups (init []) [''http'', ''http'', ''B''] True =
      (Inr [DemoService ''http''],
       (init []) \<lparr>parent := [percent SINGLE_SERVICE_XPATH ''http'', percent SINGLE_SERVICE_XPATH ''B''],
                  service_objects := [''http'' \<mapsto> DemoService ''http'']\<rparr>)"
    by (simp add: services_def service_eq refresh_service_eq xpaths demo_defs)
  from claim have bound:
    "length (parent (snd (services demo_xapi demo_objects remdups (init [])
                             [''http'', ''http'', ''B''] True)))
       \<le> length (parent (init [] :: demo_object predefined)) + card (set [''http'', ''http'', ''B''])"
    by (elim conjE)
  from claim have
    "(\<forall>history xpath. response_status (demo_xapi history xpath) = Inr ())
       \<longrightarrow> (\<exists>objs self'.
         applications demo_xapi demo_objects remdups (init []) [''http'', ''http'', ''B''] True True =
           (Inr objs, self'))"
    by (elim conjE)
  with device have returns:
    "\<exists>objs self'.
         applications demo_xapi demo_objects remdups (init []) [''http'', ''http'', ''B''] True True =
           (Inr objs, self')"
    by (rule rev_mp)
  from iter run bound returns show ?thesis by simp
qed

text \<open>
  Claim C7. For a name that is only in the container dictionary, \<open>application\<close> with
  \<open>include_containers = True\<close> returns the container at once, and with both flags
  \<open>False\<close> it returns \<^verbatim>\<open>None\<close>. With \<open>refresh_if_none = True\<close> and
  \<open>include_containers = False\<close> the lookup after the refresh is made with
  \<open>include_containers = False\<close> again, and such a lookup reads the application
  dictionary only.
\<close>

theorem application_container_fallback:
  assumes "application_objects self name = None"
    and "application_container_objects self name = Some c"
  shows "application xapi om self name refresh_if_none True = (Inr (Some c), self)
       \<and> application xapi om self name False False = (Inr None, self)
       \<and> application xapi om self name True False =
           (case refresh_application xapi om self name of
              (Inl e, self') \<Rightarrow> (Inl e, self')
            | (Inr u, self') \<Rightarrow> application xapi om self' name False False)
       \<and> (\<forall>self'. application xapi om self' name False False =
             (Inr (application_objects self' name), self'))"
proof -
  have hit: "application xapi om self name refresh_if_none True = (Inr (Some c), self)"
    using assms by (simp add: application_hit)
  have miss: "application xapi om self name False False = (Inr None, self)"
    using assms by (simp add: application_no_refresh)
  have retry: "application xapi om self name True False =
           (case refresh_application xapi om self name of
              (Inl e, self') \<Rightarrow> (Inl e, self')
            | (Inr u, self') \<Rightarrow> application xapi om self' name False False)"
    using assms by (simp add: application_miss)
  have plain: "\<forall>self'. application xapi om self' name False False =
             (Inr (application_objects self' name), self')"
    by (simp add: application_no_refresh)
  from hit miss retry plain show ?thesis by blast
qed

theorem application_container_fallback_witness:
  "application_objects stale ''old-box'' = None
   \<and> application_container_objects stale ''old-box'' = Some (DemoContainer ''old-box'')
   \<and> application demo_xapi demo_objects stale ''old-box'' True True =
       (Inr (Some (DemoContainer ''old-box'')), stale)
   \<and> application demo_xapi demo_objects stale ''old-box'' False False = (Inr None, stale)
   \<and> application demo_xapi demo_objects stale ''old-box'' True False =
       (Inr None, stale\<lparr>parent := [percent SINGLE_APPLICATION_XPATH ''old-box'']\<rparr>)"
  using application_container_fallback
    [of stale "''old-box''" "DemoContainer ''old-box''" demo_xapi demo_objects True]
  by (simp add: stale_def refresh_application_eq xpaths demo_defs)

text \<open>
  Claim C8. The paths passed to the transport client. Each of the four refresh methods
  is one application of the transport client to the requests made so far and to the
  path written out below (\<open>CHR 0x27\<close> is the single quote around the name): what the
  method raises or returns, and what it stores, is read from that one answer and from
  nothing else of the device, and that path is what the requests grow by. The
  two bulk paths are the service subtree and the combined application path with
  \<^verbatim>\<open>/entry\<close> appended.
\<close>

theorem transport_paths:
  \<open>parent (snd (refresh_service xapi om self name)) =
      parent self @ [''/config/predefined/service/entry[@name='' @ [CHR 0x27] @ name @ [CHR 0x27] @ '']'']
   \<and> parent (snd (refreshall_services xapi om self)) =
      parent self @ [''/config/predefined/service/entry'']
   \<and> parent (snd (refresh_application xapi om self name)) =
      parent self @ [''/config/predefined//*[contains(local-name(), "application")]/entry[@name='' @
         [CHR 0x27] @ name @ [CHR 0x27] @ '']'']
   \<and> parent (snd (refreshall_applications xapi om self)) =
      parent self @ [''/config/predefined//*[contains(local-name(), "application")]/entry'']
   \<and> ALL_APPLICATION_XPATH = ''/config/predefined//*[contains(local-name(), "application")]''
   \<and> ALL_SERVICE_XPATH = ''/config/predefined/service''
   \<and> refresh_service xapi om self name =
      (response_status
         (xapi (parent self)
            (''/config/predefined/service/entry[@name='' @ [CHR 0x27] @ name @ [CHR 0x27] @ '']'')),
       self\<lparr>parent := parent self @
                [''/config/predefined/service/entry[@name='' @ [CHR 0x27] @ name @ [CHR 0x27] @ '']''],
            service_objects :=
              service_objects self ++
                parsed_services om
                  (response_entries
                     (xapi (parent self)
                        (''/config/predefined/service/entry[@name='' @ [CHR 0x27] @ name @
                           [CHR 0x27] @ '']'')))\<rparr>)
   \<and> refreshall_services xapi om self =
      (response_status (xapi (parent self) ''/config/predefined/service/entry''),
       self\<lparr>parent := parent self @ [''/config/predefined/service/entry''],
            service_objects :=
              service_objects self ++
                parsed_services om
                  (response_entries (xapi (parent self) ''/config/predefined/service/entry''))\<rparr>)
   \<and> refresh_application xapi om self name =
      (response_status
         (xapi (parent self)
            (''/config/predefined//*[contains(local-name(), "application")]/entry[@name='' @
               [CHR 0x27] @ name @ [CHR 0x27] @ '']'')),
       self\<lparr>parent := parent self @
                [''/config/predefined//*[contains(local-name(), "application")]/entry[@name='' @
                   [CHR 0x27] @ name @ [CHR 0x27] @ '']''],
            application_objects :=
              application_objects self ++
                parsed_applications om
                  (response_entries
                     (xapi (parent self)
                        (''/config/predefined//*[contains(local-name(), "application")]/entry[@name='' @
                           [CHR 0x27] @ name @ [CHR 0x27] @ '']''))),
            application_container_objects :=
              application_container_objects self ++
                parsed_containers om
                  (response_entries
                     (xapi (parent self)
                        (''/config/predefined//*[contains(local-name(), "application")]/entry[@name='' @
                           [CHR 0x27] @ name @ [CHR 0x27] @ '']'')))\<rparr>)
   \<and> refreshall_applications xapi om self =
      (response_status
         (xapi (parent self)
            ''/config/predefined//*[contains(local-name(), "application")]/entry''),
       self\<lparr>parent := parent self @
                [''/config/predefined//*[contains(local-name(), "application")]/entry''],
            application_objects :=
              application_objects self ++
                parsed_applications om
                  (response_entries
                     (xapi (parent self)
                        ''/config/predefined//*[contains(local-name(), "application")]/entry'')),
            application_container_objects :=
              application_container_objects self ++
                parsed_containers om
                  (response_entries
                     (xapi (parent self)
                        ''/config/predefined//*[contains(local-name(), "application")]/entry''))\<rparr>)\<close>
proof -
  have literals:
    \<open>ALL_APPLICATION_XPATH = ''/config/predefined//*[contains(local-name(), "application")]''
     \<and> ALL_SERVICE_XPATH = ''/config/predefined/service''\<close>
    by (simp add: ALL_APPLICATION_XPATH_def ALL_SERVICE_XPATH_def PREDEFINED_ROOT_XPATH_def
        APPLICATION_CONTAINS_XPATH_def SERVICE_def)
  have one: \<open>refresh_service xapi om self name =
      (response_status
         (xapi (parent self)
            (''/config/predefined/service/entry[@name='' @ [CHR 0x27] @ name @ [CHR 0x27] @ '']'')),
       self\<lparr>parent := parent self @
                [''/config/predefined/service/entry[@name='' @ [CHR 0x27] @ name @ [CHR 0x27] @ '']''],
            service_objects :=
              service_objects self ++
                parsed_services om
                  (response_entries
                     (xapi (parent self)
                        (''/config/predefined/service/entry[@name='' @ [CHR 0x27] @ name @
                           [CHR 0x27] @ '']'')))\<rparr>)\<close>
    by (simp only: refresh_service_eq single_service_xpath)
  have every: \<open>refreshall_services xapi om self =
      (response_status (xapi (parent self) ''/config/predefined/service/entry''),
       self\<lparr>parent := parent self @ [''/config/predefined/service/entry''],
            service_objects :=
              service_objects self ++
                parsed_services om
                  (response_entries (xapi (parent self) ''/config/predefined/service/entry''))\<rparr>)\<close>
    by (simp only: refreshall_services_eq all_service_xpath)
  have one_app: \<open>refresh_application xapi om self name =
      (response_status
         (xapi (parent self)
            (''/config/predefined//*[contains(local-name(), "application")]/entry[@name='' @
               [CHR 0x27] @ name @ [CHR 0x27] @ '']'')),
       self\<lparr>parent := parent self @
                [''/config/predefined//*[contains(local-name(), "application")]/entry[@name='' @
                   [CHR 0x27] @ name @ [CHR 0x27] @ '']''],
            application_objects :=
              application_objects self ++
                parsed_applications om
                  (response_entries
                     (xapi (parent self)
                        (''/config/predefined//*[contains(local-name(), "application")]/entry[@name='' @
                           [CHR 0x27] @ name @ [CHR 0x27] @ '']''))),
            application_container_objects :=
              application_container_objects self ++
                parsed_containers om
                  (response_entries
                     (xapi (parent self)
                        (''/config/predefined//*[contains(local-name(), "application")]/entry[@name='' @
                           [CHR 0x27] @ name @ [CHR 0x27] @ '']'')))\<rparr>)\<close>
    by (simp only: refresh_application_eq single_application_xpath)
  have every_app: \<open>refreshall_applications xapi om self =
      (response_status
         (xapi (parent self)
            ''/config/predefined//*[contains(local-name(), "application")]/entry''),
       self\<lparr>parent := parent self @
                [''/config/predefined//*[contains(local-name(), "application")]/entry''],
            application_objects :=
              application_objects self ++
                parsed_applications om
                  (response_entries
                     (xapi (parent self)
                        ''/config/predefined//*[contains(local-name(), "application")]/entry'')),
            application_container_objects :=
              application_container_objects self ++
                parsed_containers om
                  (response_entries
                     (xapi (parent self)
                        ''/config/predefined//*[contains(local-name(), "application")]/entry''))\<rparr>)\<close>
    by (simp only: refreshall_applications_eq all_application_xpath)
  have logs:
    \<open>parent (snd (refresh_service xapi om self name)) =
        parent self @ [''/config/predefined/service/entry[@name='' @ [CHR 0x27] @ name @ [CHR 0x27] @ '']'']
     \<and> parent (snd (refreshall_services xapi om self)) =
        parent self @ [''/config/predefined/service/entry'']
     \<and> parent (snd (refresh_application xapi om self name)) =
        parent self @ [''/config/predefined//*[contains(local-name(), "application")]/entry[@name='' @
           [CHR 0x27] @ name @ [CHR 0x27] @ '']'']
     \<and> parent (snd (refreshall_applications xapi om self)) =
        parent self @ [''/config/predefined//*[contains(local-name(), "application")]/entry'']\<close>
    by (simp add: refresh_service_eq refreshall_services_eq refresh_application_eq
        refreshall_applications_eq xpaths)
  from logs literals one every one_app every_app show ?thesis
    by (intro conjI) (elim conjE, assumption)+
qed

text \<open>
  Claim C9. If the device's answer to the single-service request for \<open>X\<close> has an entry
  that parses to a service named \<open>X\<close>, the first \<open>service X\<close> returns an object and
  the second returns the same object without changing anything, so without a request;
  over both calls the device receives one request if \<open>X\<close> was not cached, and none
  otherwise.
\<close>

theorem service_pull_through:
  assumes "\<exists>elm \<in> set (response_entries (xapi (parent self) (percent SINGLE_SERVICE_XPATH X))).
             obj_name om (ServiceObject om elm) = X"
  shows "\<exists>obj self1.
           service xapi om self X True = (Inr (Some obj), self1)
         \<and> service xapi om self1 X True = (Inr (Some obj), self1)
         \<and> parent self1 =
             (if service_objects self X = None
              then parent self @ [percent SINGLE_SERVICE_XPATH X] else parent self)"
proof (cases "service_objects self X")
  case (Some obj)
  then have "service xapi om self X True = (Inr (Some obj), self)"
    by (simp add: service_hit)
  with Some show ?thesis by simp
next
  case None
  let ?r = "xapi (parent self) (percent SINGLE_SERVICE_XPATH X)"
  let ?self1 = "snd (refresh_service xapi om self X)"
  from assms obtain elm where elm: "elm \<in> set (response_entries ?r)"
    and name: "obj_name om (ServiceObject om elm) = X"
    by blast
  from elm have "response_entries ?r \<noteq> []" by auto
  then have ok: "response_status ?r = Inr ()" by (rule response_entries_status)
  from parsed_services_present [OF elm, of om] name
  obtain obj where "parsed_services om (response_entries ?r) X = Some obj"
    by auto
  then have stored: "service_objects ?self1 X = Some obj"
    by (simp add: refresh_service_eq)
  have fetched: "refresh_service xapi om self X = (Inr (), ?self1)"
    using ok by (simp add: refresh_service_eq)
  have first: "service xapi om self X True = (Inr (Some obj), ?self1)"
    using None stored by (subst service_eq, subst fetched) simp
  have second: "service xapi om ?self1 X True = (Inr (Some obj), ?self1)"
    using stored by (rule service_hit)
  have "parent ?self1 = parent self @ [percent SINGLE_SERVICE_XPATH X]"
    by (simp add: refresh_service_eq)
  with first second None show ?thesis by simp
qed

theorem service_pull_through_witness:
  "service demo_xapi demo_objects (init []) ''http'' True =
     (Inr (Some (DemoService ''http'')),
      (init []) \<lparr>parent := [percent SINGLE_SERVICE_XPATH ''http''],
                 service_objects := [''http'' \<mapsto> DemoService ''http'']\<rparr>)
   \<and> service demo_xapi demo_objects
       ((init []) \<lparr>parent := [percent SINGLE_SERVICE_XPATH ''http''],
                  service_objects := [''http'' \<mapsto> DemoService ''http'']\<rparr>) ''http'' True =
     (Inr (Some (DemoService ''http'')),
      (init []) \<lparr>parent := [percent SINGLE_SERVICE_XPATH ''http''],
                 service_objects := [''http'' \<mapsto> DemoService ''http'']\<rparr>)"
proof -
  have device: "\<exists>elm \<in> set (response_entries
        (demo_xapi (parent (init [] :: demo_object predefined)) (percent SINGLE_SERVICE_XPATH ''http''))).
      obj_name demo_objects (ServiceObject demo_objects elm) = ''http''"
    by (simp add: xpaths demo_defs)
  have first: "service demo_xapi demo_objects (init []) ''http'' True =
     (Inr (Some (DemoService ''http'')),
      (init []) \<lparr>parent := [percent SINGLE_SERVICE_XPATH ''http''],
                 service_objects := [''http'' \<mapsto> DemoService ''http'']\<rparr>)"
    by (simp add: service_eq refresh_service_eq xpaths demo_defs)
  from service_pull_through [of demo_xapi "init []" "''http''" demo_objects] device first
  show ?thesis by auto
qed

text \<open>
  Claim C10. With \<open>refresh_if_none = False\<close>, \<open>application\<close> and \<open>service\<close> return what
  the dictionaries hold and give back the instance unchanged: the three dictionaries
  are the same and no request has been made.
\<close>

theorem lookup_without_refresh_is_pure:
  "application xapi om self name False include_containers =
     (Inr (if application_objects self name = None \<and> include_containers
           then application_container_objects self name
           else application_objects self name), self)
   \<and> service xapi om self name False = (Inr (service_objects self name), self)"
  by (simp add: application_no_refresh service_no_refresh)

end
